theory Spec2Isabelle
  imports Main
begin

section \<open>Order evaluation of the SDK (sdk/src/math/orders.ts)\<close>

text \<open>
  The functions of \<^verbatim>\<open>orders.ts\<close> are pure: they read an order, the trader's
  position, a market with its AMM, an oracle price, a slot and a timestamp, and return a
  boolean, a quantity or an optional price. Quantities and prices are \<^verbatim>\<open>BN\<close>
  values (arbitrary-precision integers), modelled as \<open>int\<close>. The arguments
  \<^verbatim>\<open>slot\<close> and \<^verbatim>\<open>ts\<close> and the fields \<^verbatim>\<open>marketIndex\<close> and
  \<^verbatim>\<open>oraclePriceOffset\<close> are JavaScript numbers holding integers in the range where
  they are exact; \<^verbatim>\<open>new BN(n)\<close> of such a number is the integer itself.
\<close>

subsection \<open>Variants\<close>

text \<open>
  The declarations of \<^verbatim>\<open>types.ts\<close> are not part of the sources. Each category
  of variants is a datatype, so a value carries exactly one variant; the constructors are
  named as the SDK names them (\<^verbatim>\<open>PositionDirection.LONG\<close>).
\<close>

text \<open>
  Modelled from the spec: the status of an order is one of uninitialized (the variant
  \<^verbatim>\<open>init\<close> of the code), open, filled, canceled.
\<close>

datatype OrderStatus = INIT | OPEN | FILLED | CANCELED

text \<open>
  Modelled from the spec: the type of an order is one of market, limit, triggerMarket,
  triggerLimit, oracle.
\<close>

datatype OrderType = MARKET | LIMIT | TRIGGER_MARKET | TRIGGER_LIMIT | ORACLE

text \<open>Modelled from the spec: the direction of an order is long or short.\<close>

datatype PositionDirection = LONG | SHORT

text \<open>
  Modelled from the spec: the trigger condition of an order is one of untriggered,
  triggeredAbove, triggeredBelow.
\<close>

datatype OrderTriggerCondition = UNTRIGGERED | TRIGGERED_ABOVE | TRIGGERED_BELOW

text \<open>
  Modelled from the spec: \<^verbatim>\<open>isVariant(object, type)\<close> of \<^verbatim>\<open>types.ts\<close>
  tests whether the value is the named variant.
\<close>

definition isVariant :: "'v \<Rightarrow> 'v \<Rightarrow> bool" where
  "isVariant object type = (object = type)"

text \<open>
  Modelled from the spec: \<^verbatim>\<open>isOneOfVariant(object, types)\<close> of
  \<^verbatim>\<open>types.ts\<close> tests whether the value is one of the named variants, trying them
  from left to right.
\<close>

definition isOneOfVariant :: "'v \<Rightarrow> 'v list \<Rightarrow> bool" where
  "isOneOfVariant object types =
     foldl (\<lambda>result type. result \<or> isVariant object type) False types"

subsection \<open>Data\<close>

text \<open>
  A position and an order both have a \<^verbatim>\<open>baseAssetAmount\<close>, an order and the
  oracle data both have a \<^verbatim>\<open>price\<close>: the fields of the position and of the
  oracle data are written with their record's name, those of the order without.
\<close>

record PerpPosition =
  baseAssetAmount :: int

record OraclePriceData =
  price :: int

record Order =
  status :: OrderStatus
  orderType :: OrderType
  direction :: PositionDirection
  marketIndex :: nat
  baseAssetAmount :: int
  baseAssetAmountFilled :: int
  price :: int
  oraclePriceOffset :: int
  auctionStartPrice :: int
  auctionEndPrice :: int
  triggerCondition :: OrderTriggerCondition
  maxTs :: int
  postOnly :: bool

text \<open>
  The user object answers two queries: the position held in a market, if any, and an
  empty position for a market. Both are methods of a class outside this file, so they are
  fields of the model's user.
\<close>

record User =
  getPerpPosition :: "nat \<Rightarrow> PerpPosition option"
  getEmptyPosition :: "nat \<Rightarrow> PerpPosition"

text \<open>
  The AMM has many more fields (reserves, peg, spreads), read only by the curve
  mathematics; they are the extension part of the record.
\<close>

record AMM =
  minOrderSize :: int
  orderTickSize :: int
  orderStepSize :: int

record 'r PerpMarketAccount =
  amm :: "'r AMM_scheme"

subsection \<open>Numeric constants and BN operations\<close>

text \<open>
  Modelled from the spec: \<^verbatim>\<open>ZERO\<close> of
  \<^verbatim>\<open>constants/numericConstants.ts\<close>, which is not part of the sources, is the
  integer 0 (a flat position, an unset price, no expiry).
\<close>

definition ZERO :: int where
  "ZERO = 0"

text \<open>
  Modelled from the spec: \<^verbatim>\<open>TWO\<close> of
  \<^verbatim>\<open>constants/numericConstants.ts\<close> is the integer 2 (the spec compares the
  remainder of an order with \<open>2 \<times> |position|\<close>).
\<close>

definition TWO :: int where
  "TWO = 2"

text \<open>A failed assertion of the BN library is the only error these functions can raise.\<close>

datatype error = AssertionFailed

text \<open>
  \<^verbatim>\<open>a.mod(b)\<close> of the BN library is the remainder of the division that truncates
  towards zero (it has the sign of \<open>a\<close>); the library asserts that \<open>b\<close> is not
  zero and throws otherwise.
\<close>

definition bn_mod :: "int \<Rightarrow> int \<Rightarrow> error + int" where
  "bn_mod a b = (if b = 0 then Inl AssertionFailed else Inr (sgn a * (\<bar>a\<bar> mod \<bar>b\<bar>)))"

text \<open>
  \<^verbatim>\<open>BN.min(left, right)\<close> returns \<open>left\<close> when it is strictly smaller, else
  \<open>right\<close>.
\<close>

definition bn_min :: "int \<Rightarrow> int \<Rightarrow> int" where
  "bn_min left right = (if left < right then left else right)"

subsection \<open>Collaborators\<close>

text \<open>
  The auction functions (\<^verbatim>\<open>./auction\<close>) and the curve mathematics
  (\<^verbatim>\<open>./amm\<close>) are imported by \<^verbatim>\<open>orders.ts\<close> and used only through their
  results. They are parameters of the model: every theorem below holds for all of them.
\<close>

record 'r Collaborators =
  isAuctionComplete :: "Order \<Rightarrow> int \<Rightarrow> bool"
  getAuctionPrice :: "Order \<Rightarrow> int \<Rightarrow> int \<Rightarrow> int"
  calculateUpdatedAMM :: "'r AMM_scheme \<Rightarrow> OraclePriceData \<Rightarrow> 'r AMM_scheme"
  calculateMaxBaseAssetAmountToTrade ::
    "'r AMM_scheme \<Rightarrow> int \<Rightarrow> PositionDirection \<Rightarrow> OraclePriceData \<Rightarrow> int \<times> PositionDirection"
  calculateMaxBaseAssetAmountFillable :: "'r AMM_scheme \<Rightarrow> PositionDirection \<Rightarrow> int"

subsection \<open>Risk classification\<close>

definition isOrderRiskIncreasing :: "User \<Rightarrow> Order \<Rightarrow> bool" where
  "isOrderRiskIncreasing user order =
     (if isVariant (status order) INIT then False
      else
        let position =
              (case getPerpPosition user (marketIndex order) of
                 Some p \<Rightarrow> p
               | None \<Rightarrow> getEmptyPosition user (marketIndex order))
        in
          if PerpPosition.baseAssetAmount position = ZERO then True
          else if PerpPosition.baseAssetAmount position > ZERO \<and> isVariant (direction order) LONG
          then True
          else if PerpPosition.baseAssetAmount position < ZERO \<and> isVariant (direction order) SHORT
          then True
          else
            let baseAssetAmountToFill = baseAssetAmount order - baseAssetAmountFilled order
            in if baseAssetAmountToFill > \<bar>PerpPosition.baseAssetAmount position\<bar> * TWO then True
               else False)"

definition isOrderRiskIncreasingInSameDirection :: "User \<Rightarrow> Order \<Rightarrow> bool" where
  "isOrderRiskIncreasingInSameDirection user order =
     (if isVariant (status order) INIT then False
      else
        let position =
              (case getPerpPosition user (marketIndex order) of
                 Some p \<Rightarrow> p
               | None \<Rightarrow> getEmptyPosition user (marketIndex order))
        in
          if PerpPosition.baseAssetAmount position = ZERO then True
          else if PerpPosition.baseAssetAmount position > ZERO \<and> isVariant (direction order) LONG
          then True
          else if PerpPosition.baseAssetAmount position < ZERO \<and> isVariant (direction order) SHORT
          then True
          else False)"

definition isOrderReduceOnly :: "User \<Rightarrow> Order \<Rightarrow> bool" where
  "isOrderReduceOnly user order =
     (if isVariant (status order) INIT then False
      else
        let position =
              (case getPerpPosition user (marketIndex order) of
                 Some p \<Rightarrow> p
               | None \<Rightarrow> getEmptyPosition user (marketIndex order))
        in
          if PerpPosition.baseAssetAmount position \<ge> ZERO \<and> isVariant (direction order) LONG
          then False
          else if PerpPosition.baseAssetAmount position \<le> ZERO \<and> isVariant (direction order) SHORT
          then False
          else True)"

subsection \<open>Order-type predicates\<close>

definition isMarketOrder :: "Order \<Rightarrow> bool" where
  "isMarketOrder order = isOneOfVariant (orderType order) [MARKET, TRIGGER_MARKET, ORACLE]"

definition isLimitOrder :: "Order \<Rightarrow> bool" where
  "isLimitOrder order = isOneOfVariant (orderType order) [LIMIT, TRIGGER_LIMIT]"

definition mustBeTriggered :: "Order \<Rightarrow> bool" where
  "mustBeTriggered order = isOneOfVariant (orderType order) [TRIGGER_MARKET, TRIGGER_LIMIT]"

definition isTriggered :: "Order \<Rightarrow> bool" where
  "isTriggered order =
     isOneOfVariant (triggerCondition order) [TRIGGERED_ABOVE, TRIGGERED_BELOW]"

definition isRestingLimitOrder :: "'r Collaborators \<Rightarrow> Order \<Rightarrow> int \<Rightarrow> bool" where
  "isRestingLimitOrder c order slot =
     (isLimitOrder order \<and> (postOnly order \<or> isAuctionComplete c order slot))"

definition isTakingOrder :: "'r Collaborators \<Rightarrow> Order \<Rightarrow> int \<Rightarrow> bool" where
  "isTakingOrder c order slot = (isMarketOrder order \<or> \<not> isRestingLimitOrder c order slot)"

definition isOrderExpired :: "Order \<Rightarrow> int \<Rightarrow> bool" where
  "isOrderExpired order ts =
     (if mustBeTriggered order \<or> \<not> isVariant (status order) OPEN \<or> maxTs order = ZERO
      then False
      else ts > maxTs order)"

subsection \<open>Limit price\<close>

definition hasAuctionPrice :: "'r Collaborators \<Rightarrow> Order \<Rightarrow> int \<Rightarrow> bool" where
  "hasAuctionPrice c order slot =
     (\<not> isAuctionComplete c order slot \<and>
      (\<not> auctionStartPrice order = ZERO \<or> \<not> auctionEndPrice order = ZERO))"

definition hasLimitPrice :: "'r Collaborators \<Rightarrow> Order \<Rightarrow> int \<Rightarrow> bool" where
  "hasLimitPrice c order slot =
     (price order > ZERO \<or> oraclePriceOffset order \<noteq> 0 \<or> \<not> isAuctionComplete c order slot)"

text \<open>The optional \<^verbatim>\<open>fallbackPrice\<close> and the result are \<open>None\<close> when undefined.\<close>

definition getLimitPrice ::
  "'r Collaborators \<Rightarrow> Order \<Rightarrow> OraclePriceData \<Rightarrow> int \<Rightarrow> int option \<Rightarrow> int option" where
  "getLimitPrice c order oraclePriceData slot fallbackPrice =
     (if hasAuctionPrice c order slot
      then Some (getAuctionPrice c order slot (OraclePriceData.price oraclePriceData))
      else if oraclePriceOffset order \<noteq> 0
      then Some (OraclePriceData.price oraclePriceData + oraclePriceOffset order)
      else if price order = ZERO then fallbackPrice
      else Some (price order))"

subsection \<open>Quantity the AMM can fill\<close>

definition standardizeBaseAssetAmount :: "int \<Rightarrow> int \<Rightarrow> error + int" where
  "standardizeBaseAssetAmount baseAssetAmount' stepSize =
     (case bn_mod baseAssetAmount' stepSize of
        Inl e \<Rightarrow> Inl e
      | Inr remainder \<Rightarrow> Inr (baseAssetAmount' - remainder))"

definition isSameDirection :: "PositionDirection \<Rightarrow> PositionDirection \<Rightarrow> bool" where
  "isSameDirection firstDirection secondDirection =
     ((isVariant firstDirection LONG \<and> isVariant secondDirection LONG) \<or>
      (isVariant firstDirection SHORT \<and> isVariant secondDirection SHORT))"

definition calculateBaseAssetAmountToFillUpToLimitPrice ::
  "'r Collaborators \<Rightarrow> Order \<Rightarrow> 'r AMM_scheme \<Rightarrow> int \<Rightarrow> OraclePriceData \<Rightarrow> error + int" where
  "calculateBaseAssetAmountToFillUpToLimitPrice c order amm' limitPrice oraclePriceData =
     (let adjustedLimitPrice =
            (if isVariant (direction order) LONG then limitPrice - orderTickSize amm'
             else limitPrice + orderTickSize amm');
          (maxAmountToTrade, direction') =
            calculateMaxBaseAssetAmountToTrade c amm' adjustedLimitPrice
              (direction order) oraclePriceData
      in
        case standardizeBaseAssetAmount maxAmountToTrade (orderStepSize amm') of
          Inl e \<Rightarrow> Inl e
        | Inr baseAssetAmount' \<Rightarrow>
            let sameDirection = isSameDirection direction' (direction order)
            in if \<not> sameDirection then Inr ZERO
               else
                 let baseAssetAmountUnfilled =
                       baseAssetAmount order - baseAssetAmountFilled order
                 in Inr (if baseAssetAmount' > baseAssetAmountUnfilled
                         then baseAssetAmountUnfilled
                         else baseAssetAmount'))"

definition calculateBaseAssetAmountForAmmToFulfill ::
  "'r Collaborators \<Rightarrow> Order \<Rightarrow> 'r PerpMarketAccount \<Rightarrow> OraclePriceData \<Rightarrow> int \<Rightarrow> error + int" where
  "calculateBaseAssetAmountForAmmToFulfill c order market oraclePriceData slot =
     (if mustBeTriggered order \<and> \<not> isTriggered order then Inr ZERO
      else
        let limitPrice = getLimitPrice c order oraclePriceData slot None;
            updatedAMM = calculateUpdatedAMM c (amm market) oraclePriceData
        in
          case (case limitPrice of
                  Some lp \<Rightarrow>
                    calculateBaseAssetAmountToFillUpToLimitPrice c order updatedAMM lp
                      oraclePriceData
                | None \<Rightarrow> Inr (baseAssetAmount order - baseAssetAmountFilled order)) of
            Inl e \<Rightarrow> Inl e
          | Inr baseAssetAmount' \<Rightarrow>
              Inr (bn_min
                     (calculateMaxBaseAssetAmountFillable c updatedAMM (direction order))
                     baseAssetAmount'))"

text \<open>
  In \<^verbatim>\<open>(A && B) || C\<close> the quantity of \<^verbatim>\<open>B\<close> is computed only when the
  auction is complete, and \<^verbatim>\<open>C\<close> only when the left disjunct is false.
\<close>

definition isFillableByVAMM ::
  "'r Collaborators \<Rightarrow> Order \<Rightarrow> 'r PerpMarketAccount \<Rightarrow> OraclePriceData \<Rightarrow> int \<Rightarrow> int
     \<Rightarrow> error + bool" where
  "isFillableByVAMM c order market oraclePriceData slot ts =
     (if isAuctionComplete c order slot
      then
        (case calculateBaseAssetAmountForAmmToFulfill c order market oraclePriceData slot of
           Inl e \<Rightarrow> Inl e
         | Inr q \<Rightarrow> Inr (q \<ge> minOrderSize (amm market) \<or> isOrderExpired order ts))
      else Inr (isOrderExpired order ts))"

subsection \<open>The position an order is compared with\<close>

text \<open>
  The three risk classifiers read the same position:
  \<^verbatim>\<open>user.getPerpPosition(order.marketIndex) || user.getEmptyPosition(order.marketIndex)\<close>.
  The properties below name it.
\<close>

definition orderPosition :: "User \<Rightarrow> Order \<Rightarrow> PerpPosition" where
  "orderPosition user order =
     (case getPerpPosition user (marketIndex order) of
        Some p \<Rightarrow> p
      | None \<Rightarrow> getEmptyPosition user (marketIndex order))"

subsection \<open>Concrete inputs\<close>

text \<open>
  An open market order to buy 1000 in market 0, nothing filled, with no static price, no
  oracle offset, no auction prices and no expiry; a user holding \<open>b\<close> in market 0 and
  nothing elsewhere; a market whose AMM has minimum order size 1, tick size 1 and the given
  step size; collaborators that answer with fixed values and leave the AMM as it is.
\<close>

definition exampleOrder :: Order where
  "exampleOrder =
     \<lparr>status = OPEN, orderType = MARKET, direction = LONG, marketIndex = 0,
      baseAssetAmount = 1000, baseAssetAmountFilled = 0, price = 0, oraclePriceOffset = 0,
      auctionStartPrice = 0, auctionEndPrice = 0, triggerCondition = UNTRIGGERED,
      maxTs = 0, postOnly = False\<rparr>"

definition exampleUser :: "int \<Rightarrow> User" where
  "exampleUser b =
     \<lparr>getPerpPosition = (\<lambda>i. if i = 0 then Some \<lparr>PerpPosition.baseAssetAmount = b\<rparr> else None),
      getEmptyPosition = (\<lambda>i. \<lparr>PerpPosition.baseAssetAmount = 0\<rparr>)\<rparr>"

definition exampleMarket :: "int \<Rightarrow> unit PerpMarketAccount" where
  "exampleMarket stepSize =
     \<lparr>amm = \<lparr>minOrderSize = 1, orderTickSize = 1, orderStepSize = stepSize\<rparr>\<rparr>"

definition exampleCollaborators ::
  "bool \<Rightarrow> int \<times> PositionDirection \<Rightarrow> int \<Rightarrow> unit Collaborators" where
  "exampleCollaborators complete traded fillable =
     \<lparr>isAuctionComplete = (\<lambda>order slot. complete),
      getAuctionPrice = (\<lambda>order slot oraclePrice. oraclePrice + 7),
      calculateUpdatedAMM = (\<lambda>amm' oraclePriceData. amm'),
      calculateMaxBaseAssetAmountToTrade =
        (\<lambda>amm' limitPrice direction' oraclePriceData. traded),
      calculateMaxBaseAssetAmountFillable = (\<lambda>amm' direction'. fillable)\<rparr>"

section \<open>Properties\<close>

subsection \<open>Auxiliary facts\<close>

lemma isOneOfVariant_set: "isOneOfVariant v ts = (v \<in> set ts)"
proof -
  have "foldl (\<lambda>result type. result \<or> isVariant v type) b ts = (b \<or> v \<in> set ts)" for b
    by (induction ts arbitrary: b) (auto simp: isVariant_def)
  then show ?thesis
    by (simp add: isOneOfVariant_def)
qed

text \<open>
  The only failure is the zero divisor of \<^verbatim>\<open>BN.mod\<close>: with a non-zero step size
  every quantity below is computed.
\<close>

lemma fillUpToLimitPrice_total:
  "orderStepSize amm' \<noteq> 0 \<Longrightarrow>
     \<exists>v. calculateBaseAssetAmountToFillUpToLimitPrice c order amm' limitPrice oraclePriceData
            = Inr v"
  by (simp add: calculateBaseAssetAmountToFillUpToLimitPrice_def standardizeBaseAssetAmount_def
      bn_mod_def Let_def split: prod.splits)

lemma fillUpToLimitPrice_le:
  assumes "baseAssetAmountFilled order \<le> baseAssetAmount order"
    and "calculateBaseAssetAmountToFillUpToLimitPrice c order amm' limitPrice oraclePriceData
           = Inr v"
  shows "v \<le> baseAssetAmount order - baseAssetAmountFilled order"
  using assms
  by (auto simp: calculateBaseAssetAmountToFillUpToLimitPrice_def Let_def ZERO_def
      split: prod.splits sum.splits if_splits)

lemma forAmmToFulfill_total:
  assumes "orderStepSize (calculateUpdatedAMM c (amm market) oraclePriceData) \<noteq> 0"
  shows "\<exists>q. calculateBaseAssetAmountForAmmToFulfill c order market oraclePriceData slot = Inr q"
proof (cases "getLimitPrice c order oraclePriceData slot None")
  case None
  then show ?thesis
    by (simp add: calculateBaseAssetAmountForAmmToFulfill_def Let_def)
next
  case (Some lp)
  from fillUpToLimitPrice_total [OF assms] obtain v where
    "calculateBaseAssetAmountToFillUpToLimitPrice c order
       (calculateUpdatedAMM c (amm market) oraclePriceData) lp oraclePriceData = Inr v"
    by blast
  with Some show ?thesis
    by (simp add: calculateBaseAssetAmountForAmmToFulfill_def Let_def)
qed

lemma forAmmToFulfill_le:
  assumes "baseAssetAmountFilled order \<le> baseAssetAmount order"
    and "calculateBaseAssetAmountForAmmToFulfill c order market oraclePriceData slot = Inr q"
  shows "q \<le> baseAssetAmount order - baseAssetAmountFilled order"
proof (cases "mustBeTriggered order \<and> \<not> isTriggered order")
  case True
  with assms show ?thesis
    by (simp add: calculateBaseAssetAmountForAmmToFulfill_def ZERO_def)
next
  case False
  show ?thesis
  proof (cases "getLimitPrice c order oraclePriceData slot None")
    case None
    with False assms(2) show ?thesis
      by (auto simp: calculateBaseAssetAmountForAmmToFulfill_def Let_def bn_min_def
          split: if_splits)
  next
    case (Some lp)
    with False assms(2) obtain v where
      v: "calculateBaseAssetAmountToFillUpToLimitPrice c order
            (calculateUpdatedAMM c (amm market) oraclePriceData) lp oraclePriceData = Inr v"
      and q: "q = bn_min (calculateMaxBaseAssetAmountFillable c
            (calculateUpdatedAMM c (amm market) oraclePriceData) (direction order)) v"
      by (auto simp: calculateBaseAssetAmountForAmmToFulfill_def Let_def split: sum.splits)
    from fillUpToLimitPrice_le [OF assms(1) v]
    have "v \<le> baseAssetAmount order - baseAssetAmountFilled order" .
    then show ?thesis
      by (simp add: q bn_min_def)
  qed
qed

subsection \<open>Risk classification\<close>

text \<open>
  Claim C1 (flip rule). For an order that is not uninitialized (an open order in
  particular) whose direction opposes the trader's non-zero position (position long and
  order short, or position short and order long), \<open>isOrderRiskIncreasing\<close> returns true
  if and only if the unfilled remainder \<open>baseAssetAmount - baseAssetAmountFilled\<close> is
  strictly greater than twice the absolute value of the position's
  \<open>baseAssetAmount\<close>, and \<open>isOrderRiskIncreasingInSameDirection\<close> returns false.
\<close>

theorem isOrderRiskIncreasing_flip:
  assumes "status order \<noteq> INIT"
    and "(0 < PerpPosition.baseAssetAmount (orderPosition user order) \<and>
            direction order = SHORT) \<or>
         (PerpPosition.baseAssetAmount (orderPosition user order) < 0 \<and>
            direction order = LONG)"
  shows "(isOrderRiskIncreasing user order \<longleftrightarrow>
            2 * \<bar>PerpPosition.baseAssetAmount (orderPosition user order)\<bar>
              < baseAssetAmount order - baseAssetAmountFilled order) \<and>
         \<not> isOrderRiskIncreasingInSameDirection user order"
  using assms
  by (auto simp: isOrderRiskIncreasing_def isOrderRiskIncreasingInSameDirection_def
      orderPosition_def isVariant_def ZERO_def TWO_def Let_def)

text \<open>
  The instance of the spec: with a position of +10 and an open short order with nothing
  filled and remainder \<open>r\<close>, the order is risk increasing exactly when \<open>20 < r\<close>, and
  never risk increasing in the same direction.
\<close>

theorem isOrderRiskIncreasing_flip_long_10:
  "(\<forall>r. isOrderRiskIncreasing (exampleUser 10)
           (exampleOrder\<lparr>direction := SHORT, baseAssetAmount := r\<rparr>) = (20 < r)) \<and>
   (\<forall>r. isOrderRiskIncreasingInSameDirection (exampleUser 10)
           (exampleOrder\<lparr>direction := SHORT, baseAssetAmount := r\<rparr>) = False)"
proof -
  let ?order = "\<lambda>r. exampleOrder\<lparr>direction := SHORT, baseAssetAmount := r\<rparr>"
  have open_order: "status (?order r) \<noteq> INIT" for r
    by (simp add: exampleOrder_def)
  have opposed:
    "(0 < PerpPosition.baseAssetAmount (orderPosition (exampleUser 10) (?order r)) \<and>
        direction (?order r) = SHORT) \<or>
     (PerpPosition.baseAssetAmount (orderPosition (exampleUser 10) (?order r)) < 0 \<and>
        direction (?order r) = LONG)" for r
    by (simp add: exampleOrder_def exampleUser_def orderPosition_def)
  have "(isOrderRiskIncreasing (exampleUser 10) (?order r) \<longleftrightarrow>
           2 * \<bar>PerpPosition.baseAssetAmount (orderPosition (exampleUser 10) (?order r))\<bar>
             < baseAssetAmount (?order r) - baseAssetAmountFilled (?order r)) \<and>
        \<not> isOrderRiskIncreasingInSameDirection (exampleUser 10) (?order r)" for r
    using open_order opposed by (rule isOrderRiskIncreasing_flip)
  then show ?thesis
    by (simp add: exampleOrder_def exampleUser_def orderPosition_def)
qed

text \<open>
  Claim C7 (uninitialized orders are no-ops). For an order with status \<open>init\<close> and every
  user, position and timestamp, \<open>isOrderRiskIncreasing\<close>,
  \<open>isOrderRiskIncreasingInSameDirection\<close>, \<open>isOrderReduceOnly\<close> and
  \<open>isOrderExpired\<close> all return false.
\<close>

theorem uninitialized_order_noop:
  assumes "status order = INIT"
  shows "\<not> isOrderRiskIncreasing user order \<and>
         \<not> isOrderRiskIncreasingInSameDirection user order \<and>
         \<not> isOrderReduceOnly user order \<and>
         \<not> isOrderExpired order ts"
  using assms
  by (simp add: isOrderRiskIncreasing_def isOrderRiskIncreasingInSameDirection_def
      isOrderReduceOnly_def isOrderExpired_def isVariant_def)

text \<open>
  An uninitialized copy of the example order with an expiry of 5, for a flat and for a
  short trader, at timestamp 6.
\<close>

theorem uninitialized_order_noop_example:
  "\<not> isOrderRiskIncreasing (exampleUser 0) (exampleOrder\<lparr>status := INIT, maxTs := 5\<rparr>) \<and>
   \<not> isOrderRiskIncreasingInSameDirection (exampleUser 0)
       (exampleOrder\<lparr>status := INIT, maxTs := 5\<rparr>) \<and>
   \<not> isOrderReduceOnly (exampleUser (- 3)) (exampleOrder\<lparr>status := INIT, maxTs := 5\<rparr>) \<and>
   \<not> isOrderExpired (exampleOrder\<lparr>status := INIT, maxTs := 5\<rparr>) 6"
  using
    uninitialized_order_noop
      [of "exampleOrder\<lparr>status := INIT, maxTs := 5\<rparr>" "exampleUser 0" 6]
    uninitialized_order_noop
      [of "exampleOrder\<lparr>status := INIT, maxTs := 5\<rparr>" "exampleUser (- 3)" 6]
  by (simp add: exampleOrder_def)

text \<open>
  Claim C8 (reduce-only and the flat position). For an order that is not uninitialized,
  \<open>isOrderReduceOnly\<close> returns false exactly when the position's \<open>baseAssetAmount\<close> is
  at least 0 and the order is long, or at most 0 and the order is short, and true
  otherwise. Hence for a flat position and either direction \<open>isOrderReduceOnly\<close> is false
  while \<open>isOrderRiskIncreasing\<close> is true.
\<close>

theorem isOrderReduceOnly_rule:
  assumes "status order \<noteq> INIT"
  shows "(isOrderReduceOnly user order \<longleftrightarrow>
            \<not> ((0 \<le> PerpPosition.baseAssetAmount (orderPosition user order) \<and>
                  direction order = LONG) \<or>
                (PerpPosition.baseAssetAmount (orderPosition user order) \<le> 0 \<and>
                  direction order = SHORT))) \<and>
         (PerpPosition.baseAssetAmount (orderPosition user order) = 0 \<longrightarrow>
            \<not> isOrderReduceOnly user order \<and> isOrderRiskIncreasing user order)"
  using assms
  by (cases "direction order")
     (auto simp: isOrderReduceOnly_def isOrderRiskIncreasing_def orderPosition_def
      isVariant_def ZERO_def Let_def)

text \<open>
  A flat trader with the long example order and with its short copy, and a trader long 5
  with the short copy.
\<close>

theorem isOrderReduceOnly_rule_example:
  "isOrderReduceOnly (exampleUser 0) exampleOrder = False \<and>
   isOrderRiskIncreasing (exampleUser 0) exampleOrder = True \<and>
   isOrderReduceOnly (exampleUser 0) (exampleOrder\<lparr>direction := SHORT\<rparr>) = False \<and>
   isOrderRiskIncreasing (exampleUser 0) (exampleOrder\<lparr>direction := SHORT\<rparr>) = True \<and>
   isOrderReduceOnly (exampleUser 5) (exampleOrder\<lparr>direction := SHORT\<rparr>) = True"
  using isOrderReduceOnly_rule [of exampleOrder "exampleUser 0"]
    isOrderReduceOnly_rule [of "exampleOrder\<lparr>direction := SHORT\<rparr>" "exampleUser 0"]
    isOrderReduceOnly_rule [of "exampleOrder\<lparr>direction := SHORT\<rparr>" "exampleUser 5"]
  by (simp add: exampleOrder_def exampleUser_def orderPosition_def)

subsection \<open>Limit price\<close>

text \<open>
  Claim C2 (precedence of \<open>getLimitPrice\<close>). For every order, oracle price, slot and
  optional fallback the result is decided by the first rule that matches: (1) if the
  auction is not complete and one of \<open>auctionStartPrice\<close>, \<open>auctionEndPrice\<close> is not
  zero, the price \<open>getAuctionPrice order slot oraclePrice\<close> of the collaborator; (2) else
  if \<open>oraclePriceOffset\<close> is not zero, the oracle price plus the offset; (3) else if the
  static price is 0, the fallback of the caller (undefined when none is given); (4) else
  the static price.
\<close>

theorem getLimitPrice_precedence:
  "getLimitPrice c order oraclePriceData slot fallbackPrice =
     (if \<not> isAuctionComplete c order slot \<and>
         (auctionStartPrice order \<noteq> 0 \<or> auctionEndPrice order \<noteq> 0)
      then Some (getAuctionPrice c order slot (OraclePriceData.price oraclePriceData))
      else if oraclePriceOffset order \<noteq> 0
      then Some (OraclePriceData.price oraclePriceData + oraclePriceOffset order)
      else if price order = 0 then fallbackPrice
      else Some (price order))"
  by (simp add: getLimitPrice_def hasAuctionPrice_def ZERO_def)

text \<open>
  One input for each rule, at oracle price 100 with fallback 42: an order with an auction
  end price and an offset of 3 while the auction runs (the auction price, here the oracle
  price plus 7, wins) and once it is complete (the offset applies); the example order with
  and without a fallback; and an order with the static price 9.
\<close>

theorem getLimitPrice_precedence_example:
  "getLimitPrice (exampleCollaborators False (0, LONG) 0)
     (exampleOrder\<lparr>auctionEndPrice := 5, oraclePriceOffset := 3\<rparr>)
     \<lparr>OraclePriceData.price = 100\<rparr> 1 (Some 42) = Some 107 \<and>
   getLimitPrice (exampleCollaborators True (0, LONG) 0)
     (exampleOrder\<lparr>auctionEndPrice := 5, oraclePriceOffset := 3\<rparr>)
     \<lparr>OraclePriceData.price = 100\<rparr> 1 (Some 42) = Some 103 \<and>
   getLimitPrice (exampleCollaborators True (0, LONG) 0) exampleOrder
     \<lparr>OraclePriceData.price = 100\<rparr> 1 (Some 42) = Some 42 \<and>
   getLimitPrice (exampleCollaborators True (0, LONG) 0) exampleOrder
     \<lparr>OraclePriceData.price = 100\<rparr> 1 None = None \<and>
   getLimitPrice (exampleCollaborators True (0, LONG) 0) (exampleOrder\<lparr>price := 9\<rparr>)
     \<lparr>OraclePriceData.price = 100\<rparr> 1 (Some 42) = Some 9"
  by (simp add: getLimitPrice_precedence exampleOrder_def exampleCollaborators_def)

subsection \<open>Rounding to the step size\<close>

text \<open>
  Claim C6 (step-size rounding). For a quantity \<open>q \<ge> 0\<close> and a step size \<open>s > 0\<close>,
  \<open>standardizeBaseAssetAmount q s\<close> returns \<open>q - q mod s\<close>, which is a multiple of
  \<open>s\<close>, is at most \<open>q\<close> (it never rounds up), and is the largest such multiple.
\<close>

theorem standardizeBaseAssetAmount_rounds_down:
  assumes "0 \<le> q" and "0 < s"
  shows "standardizeBaseAssetAmount q s = Inr (q - q mod s) \<and>
         s dvd (q - q mod s) \<and> q - q mod s \<le> q \<and>
         (\<forall>m. s dvd m \<and> m \<le> q \<longrightarrow> m \<le> q - q mod s)"
proof -
  have eq: "standardizeBaseAssetAmount q s = Inr (q - q mod s)"
    using assms by (cases "q = 0") (simp_all add: standardizeBaseAssetAmount_def bn_mod_def)
  have dv: "s dvd (q - q mod s)"
    by (simp add: minus_mod_eq_mult_div)
  have le: "q - q mod s \<le> q"
    using assms by simp
  have mx: "m \<le> q - q mod s" if "s dvd m" "m \<le> q" for m
  proof -
    from that(1) obtain k where m: "m = s * k" by (auto elim: dvdE)
    with that(2) assms(2) have "k \<le> q div s"
      by (metis mult.commute zdiv_mono1 nonzero_mult_div_cancel_right less_le)
    then have "s * k \<le> s * (q div s)"
      using assms(2) by (simp add: mult_left_mono)
    then show ?thesis
      by (simp add: m minus_mod_eq_mult_div mult.commute)
  qed
  from eq dv le mx show ?thesis by blast
qed

text \<open>The instance of the spec: 1250 with step size 100 is rounded down to 1200.\<close>

theorem standardizeBaseAssetAmount_1250_100:
  "standardizeBaseAssetAmount 1250 100 = Inr 1200"
  using standardizeBaseAssetAmount_rounds_down [of 1250 100] by simp

subsection \<open>Quantity the AMM can fill\<close>

text \<open>
  Claim C4 (trigger gate). For an order whose type is \<open>triggerMarket\<close> or
  \<open>triggerLimit\<close> and whose trigger condition is neither \<open>triggeredAbove\<close> nor
  \<open>triggeredBelow\<close>, \<open>calculateBaseAssetAmountForAmmToFulfill\<close> returns exactly 0,
  whatever the market, the AMM, the oracle price, the slot and the collaborators are.
\<close>

theorem trigger_gate_zero:
  assumes "orderType order \<in> {TRIGGER_MARKET, TRIGGER_LIMIT}"
    and "triggerCondition order \<notin> {TRIGGERED_ABOVE, TRIGGERED_BELOW}"
  shows "calculateBaseAssetAmountForAmmToFulfill c order market oraclePriceData slot = Inr 0"
  using assms
  by (simp add: calculateBaseAssetAmountForAmmToFulfill_def mustBeTriggered_def
      isTriggered_def isOneOfVariant_set ZERO_def)

text \<open>
  An untriggered trigger-limit order with a static price, on a market whose step size is
  even zero: the gate returns before anything is computed.
\<close>

theorem trigger_gate_zero_example:
  "calculateBaseAssetAmountForAmmToFulfill (exampleCollaborators True (800, LONG) 800)
     (exampleOrder\<lparr>orderType := TRIGGER_LIMIT, price := 10\<rparr>) (exampleMarket 0)
     \<lparr>OraclePriceData.price = 100\<rparr> 1 = Inr 0"
  using trigger_gate_zero [of "exampleOrder\<lparr>orderType := TRIGGER_LIMIT, price := 10\<rparr>"
      "exampleCollaborators True (800, LONG) 800" "exampleMarket 0"
      "\<lparr>OraclePriceData.price = 100\<rparr>" 1]
  by (simp add: exampleOrder_def)

text \<open>
  Claim C5 (direction mismatch yields zero, for a non-zero step size). For an order with
  limit price \<open>limitPrice\<close> and an AMM whose \<open>orderStepSize\<close> is not zero, when
  \<open>calculateMaxBaseAssetAmountToTrade\<close>, asked at the limit price moved by one tick,
  reports a direction different from the order's own,
  \<open>calculateBaseAssetAmountToFillUpToLimitPrice\<close> returns 0, whatever quantity was
  reported with it, a positive one included. For every step size it returns no value other
  than 0. The step size matters because the reported quantity is rounded to it before the
  directions are compared, and \<^verbatim>\<open>BN.mod\<close> asserts a non-zero divisor.
\<close>

theorem direction_mismatch_zero:
  assumes "calculateMaxBaseAssetAmountToTrade c amm'
           (if direction order = LONG then limitPrice - orderTickSize amm'
            else limitPrice + orderTickSize amm')
           (direction order) oraclePriceData = (maxAmountToTrade, resultingDirection)"
    and "resultingDirection \<noteq> direction order"
  shows "(\<forall>v. calculateBaseAssetAmountToFillUpToLimitPrice c order amm' limitPrice
                oraclePriceData = Inr v \<longrightarrow> v = 0) \<and>
         (orderStepSize amm' \<noteq> 0 \<longrightarrow>
            calculateBaseAssetAmountToFillUpToLimitPrice c order amm' limitPrice
              oraclePriceData = Inr 0)"
  using assms
  by (cases "direction order")
     (auto simp: calculateBaseAssetAmountToFillUpToLimitPrice_def standardizeBaseAssetAmount_def
      bn_mod_def isSameDirection_def isVariant_def ZERO_def Let_def split: if_splits)

text \<open>
  A long order with limit price 10 on an AMM with step size 100, where the curve reports
  the positive quantity 1250 in the short direction.
\<close>

theorem direction_mismatch_zero_example:
  "calculateBaseAssetAmountToFillUpToLimitPrice (exampleCollaborators True (1250, SHORT) 800)
     (exampleOrder\<lparr>price := 10\<rparr>) (amm (exampleMarket 100)) 10
     \<lparr>OraclePriceData.price = 100\<rparr> = Inr 0"
  using direction_mismatch_zero [of "exampleCollaborators True (1250, SHORT) 800"
      "amm (exampleMarket 100)" "exampleOrder\<lparr>price := 10\<rparr>" 10
      "\<lparr>OraclePriceData.price = 100\<rparr>" 1250 SHORT]
  by (simp add: exampleOrder_def exampleCollaborators_def exampleMarket_def)

text \<open>
  Without the condition on the step size the property fails: for the same long order and
  the same report of 1250 in the short direction, on an AMM with step size 0, the rounding
  raises the assertion of \<^verbatim>\<open>BN.mod\<close> and no 0 is returned, although the
  directions differ.
\<close>

theorem direction_mismatch_step_zero_raises:
  "snd (calculateMaxBaseAssetAmountToTrade (exampleCollaborators True (1250, SHORT) 800)
          (amm (exampleMarket 0)) (10 - orderTickSize (amm (exampleMarket 0))) LONG
          \<lparr>OraclePriceData.price = 100\<rparr>) \<noteq> direction (exampleOrder\<lparr>price := 10\<rparr>) \<and>
   calculateBaseAssetAmountToFillUpToLimitPrice (exampleCollaborators True (1250, SHORT) 800)
     (exampleOrder\<lparr>price := 10\<rparr>) (amm (exampleMarket 0)) 10
     \<lparr>OraclePriceData.price = 100\<rparr> = Inl AssertionFailed \<and>
   calculateBaseAssetAmountToFillUpToLimitPrice (exampleCollaborators True (1250, SHORT) 800)
     (exampleOrder\<lparr>price := 10\<rparr>) (amm (exampleMarket 0)) 10
     \<lparr>OraclePriceData.price = 100\<rparr> \<noteq> Inr 0"
  by (simp add: calculateBaseAssetAmountToFillUpToLimitPrice_def standardizeBaseAssetAmount_def
      bn_mod_def isVariant_def exampleOrder_def exampleCollaborators_def exampleMarket_def)

text \<open>
  Claim C9 (the fill never exceeds the unfilled remainder). For an order with
  \<open>baseAssetAmountFilled \<le> baseAssetAmount\<close>, every market, oracle price and slot and
  all collaborators, every quantity that \<open>calculateBaseAssetAmountForAmmToFulfill\<close>
  returns is at most \<open>baseAssetAmount - baseAssetAmountFilled\<close>; and it does return a
  quantity whenever the step size of the updated AMM is not zero.
\<close>

theorem fill_le_unfilled_remainder:
  assumes "baseAssetAmountFilled order \<le> baseAssetAmount order"
  shows "(\<forall>q. calculateBaseAssetAmountForAmmToFulfill c order market oraclePriceData slot = Inr q
              \<longrightarrow> q \<le> baseAssetAmount order - baseAssetAmountFilled order) \<and>
         (orderStepSize (calculateUpdatedAMM c (amm market) oraclePriceData) \<noteq> 0 \<longrightarrow>
            (\<exists>q. calculateBaseAssetAmountForAmmToFulfill c order market oraclePriceData slot
                    = Inr q))"
  using forAmmToFulfill_le [OF assms] forAmmToFulfill_total by blast

text \<open>
  A long order for 1000 with 400 filled and limit price 10, where the curve reports 1250
  in the long direction and can fill 5000: the quantity returned is at most 600.
\<close>

theorem fill_le_unfilled_remainder_example:
  "\<exists>q. calculateBaseAssetAmountForAmmToFulfill (exampleCollaborators True (1250, LONG) 5000)
          (exampleOrder\<lparr>price := 10, baseAssetAmountFilled := 400\<rparr>) (exampleMarket 100)
          \<lparr>OraclePriceData.price = 100\<rparr> 1 = Inr q \<and> q \<le> 600"
  using fill_le_unfilled_remainder
      [of "exampleOrder\<lparr>price := 10, baseAssetAmountFilled := 400\<rparr>"
        "exampleCollaborators True (1250, LONG) 5000" "exampleMarket 100"
        "\<lparr>OraclePriceData.price = 100\<rparr>" 1]
  by (auto simp: exampleOrder_def exampleCollaborators_def exampleMarket_def)

text \<open>
  Claim C3 (eligibility for a fill by the AMM, when a value is returned). For every order,
  market, oracle price, slot and timestamp, the value that \<open>isFillableByVAMM\<close> returns
  is true if and only if the auction is complete and the quantity computed by
  \<open>calculateBaseAssetAmountForAmmToFulfill\<close> is at least the \<open>minOrderSize\<close> of the
  market's AMM, or the order is expired at the timestamp; and a value is returned whenever
  the \<open>orderStepSize\<close> of the updated AMM is not zero. The step size matters because
  the quantity is computed, and rounded with \<^verbatim>\<open>BN.mod\<close>, before the expiry is
  looked at.
\<close>

theorem isFillableByVAMM_iff:
  "(\<forall>b. isFillableByVAMM c order market oraclePriceData slot ts = Inr b \<longrightarrow>
      (b \<longleftrightarrow>
         (isAuctionComplete c order slot \<and>
          (\<exists>q. calculateBaseAssetAmountForAmmToFulfill c order market oraclePriceData slot
                  = Inr q \<and> minOrderSize (amm market) \<le> q)) \<or>
         isOrderExpired order ts)) \<and>
   (orderStepSize (calculateUpdatedAMM c (amm market) oraclePriceData) \<noteq> 0 \<longrightarrow>
      (\<exists>b. isFillableByVAMM c order market oraclePriceData slot ts = Inr b))"
proof -
  have returned: "b \<longleftrightarrow>
      (isAuctionComplete c order slot \<and>
       (\<exists>q. calculateBaseAssetAmountForAmmToFulfill c order market oraclePriceData slot
               = Inr q \<and> minOrderSize (amm market) \<le> q)) \<or>
      isOrderExpired order ts"
    if "isFillableByVAMM c order market oraclePriceData slot ts = Inr b" for b
    using that by (auto simp: isFillableByVAMM_def split: if_splits sum.splits)
  have returns: "\<exists>b. isFillableByVAMM c order market oraclePriceData slot ts = Inr b"
    if "orderStepSize (calculateUpdatedAMM c (amm market) oraclePriceData) \<noteq> 0"
  proof -
    from forAmmToFulfill_total [OF that] obtain q where
      "calculateBaseAssetAmountForAmmToFulfill c order market oraclePriceData slot = Inr q"
      by blast
    then show ?thesis
      by (simp add: isFillableByVAMM_def)
  qed
  from returned returns show ?thesis by blast
qed

text \<open>
  The scenario of the spec: the open long market order for 1000, step size 50, the curve
  able to fill 800, the auction complete. The quantity is 800 and the order is fillable.
\<close>

theorem isFillableByVAMM_iff_example:
  "calculateBaseAssetAmountForAmmToFulfill (exampleCollaborators True (800, LONG) 800)
     exampleOrder (exampleMarket 50) \<lparr>OraclePriceData.price = 100\<rparr> 1 = Inr 800 \<and>
   isFillableByVAMM (exampleCollaborators True (800, LONG) 800)
     exampleOrder (exampleMarket 50) \<lparr>OraclePriceData.price = 100\<rparr> 1 1700000000 = Inr True"
proof -
  have q: "calculateBaseAssetAmountForAmmToFulfill (exampleCollaborators True (800, LONG) 800)
     exampleOrder (exampleMarket 50) \<lparr>OraclePriceData.price = 100\<rparr> 1 = Inr 800"
    by (simp add: calculateBaseAssetAmountForAmmToFulfill_def mustBeTriggered_def
        isOneOfVariant_set getLimitPrice_def hasAuctionPrice_def ZERO_def bn_min_def
        exampleOrder_def exampleCollaborators_def exampleMarket_def)
  from isFillableByVAMM_iff [of "exampleCollaborators True (800, LONG) 800" exampleOrder
      "exampleMarket 50" "\<lparr>OraclePriceData.price = 100\<rparr>" 1 1700000000] q
  show ?thesis
    by (auto simp: exampleCollaborators_def exampleMarket_def)
qed

text \<open>
  Without the condition on the step size the property fails: an open order with limit
  price 10 that expired at 5, evaluated at timestamp 6 with the auction complete, on a
  market with step size 0. The order is expired, yet the call raises the assertion of
  \<^verbatim>\<open>BN.mod\<close> while it computes the quantity, and does not return true.
\<close>

theorem expired_order_step_zero_raises:
  "isAuctionComplete (exampleCollaborators True (1250, LONG) 800)
     (exampleOrder\<lparr>price := 10, maxTs := 5\<rparr>) 1 \<and>
   isOrderExpired (exampleOrder\<lparr>price := 10, maxTs := 5\<rparr>) 6 \<and>
   isFillableByVAMM (exampleCollaborators True (1250, LONG) 800)
     (exampleOrder\<lparr>price := 10, maxTs := 5\<rparr>) (exampleMarket 0)
     \<lparr>OraclePriceData.price = 100\<rparr> 1 6 = Inl AssertionFailed \<and>
   isFillableByVAMM (exampleCollaborators True (1250, LONG) 800)
     (exampleOrder\<lparr>price := 10, maxTs := 5\<rparr>) (exampleMarket 0)
     \<lparr>OraclePriceData.price = 100\<rparr> 1 6 \<noteq> Inr True"
  by (simp add: isFillableByVAMM_def calculateBaseAssetAmountForAmmToFulfill_def
      calculateBaseAssetAmountToFillUpToLimitPrice_def standardizeBaseAssetAmount_def
      bn_mod_def getLimitPrice_def hasAuctionPrice_def isOrderExpired_def mustBeTriggered_def
      isOneOfVariant_set isVariant_def ZERO_def
      exampleOrder_def exampleCollaborators_def exampleMarket_def)

subsection \<open>Taking and resting orders\<close>

text \<open>
  Claim C10 (\<open>isTakingOrder\<close> is the negation of \<open>isRestingLimitOrder\<close>). For every
  order, whose type is one of the five variants, and every slot, \<open>isTakingOrder\<close>
  returns true if and only if \<open>isRestingLimitOrder\<close> returns false: a market order
  (market, triggerMarket, oracle) is never a limit order (limit, triggerLimit).
\<close>

theorem isTakingOrder_iff_not_resting:
  "isTakingOrder c order slot \<longleftrightarrow> \<not> isRestingLimitOrder c order slot"
  by (cases "orderType order")
     (simp_all add: isTakingOrder_def isRestingLimitOrder_def isMarketOrder_def
      isLimitOrder_def isOneOfVariant_set)

text \<open>
  With the auction complete, the example market order is taking and not resting, and its
  copy of type limit is resting and not taking.
\<close>

theorem isTakingOrder_iff_not_resting_example:
  "isTakingOrder (exampleCollaborators True (0, LONG) 0) exampleOrder 1 \<and>
   \<not> isRestingLimitOrder (exampleCollaborators True (0, LONG) 0) exampleOrder 1 \<and>
   isRestingLimitOrder (exampleCollaborators True (0, LONG) 0)
     (exampleOrder\<lparr>orderType := LIMIT\<rparr>) 1 \<and>
   \<not> isTakingOrder (exampleCollaborators True (0, LONG) 0)
     (exampleOrder\<lparr>orderType := LIMIT\<rparr>) 1"
proof -
  have m: "\<not> isRestingLimitOrder (exampleCollaborators True (0, LONG) 0) exampleOrder 1"
    by (simp add: isRestingLimitOrder_def isLimitOrder_def isOneOfVariant_set exampleOrder_def)
  have l: "isRestingLimitOrder (exampleCollaborators True (0, LONG) 0)
     (exampleOrder\<lparr>orderType := LIMIT\<rparr>) 1"
    by (simp add: isRestingLimitOrder_def isLimitOrder_def isOneOfVariant_set exampleOrder_def
        exampleCollaborators_def)
  from m l show ?thesis
    by (simp add: isTakingOrder_iff_not_resting)
qed

end
